theory Spec2Isabelle
  imports Complex_Main
begin

section \<open>The refnx interface: binding entities to the calculator\<close>

text \<open>
  \<^verbatim>\<open>src/EasyReflectometryLib/interfaces/refnx.py\<close>.  The class \<^verbatim>\<open>Refnx\<close> holds a
  calculator object and forwards every structural edit to it.  The calculator
  itself (\<^verbatim>\<open>easyReflectometryLib.Calculators.refnx\<close>) is not among the sources, so it
  is represented by what the interface does to it: the sequence of method calls it
  receives, in the order they are issued, and the value its \<^verbatim>\<open>sld_profile()\<close> returns.
\<close>

subsection \<open>Keys, entities and the attribute-name tables\<close>

text \<open>
  An \<^verbatim>\<open>ItemContainer\<close> key is either an entity's integer \<^verbatim>\<open>uid\<close> or the string
  literal \<^verbatim>\<open>'model'\<close>.
\<close>

datatype key = Uid int | Name string

text \<open>
  The entity tree as \<^verbatim>\<open>create\<close> inspects it: the class of the object (the
  \<^verbatim>\<open>issubclass\<close> chain), its \<^verbatim>\<open>uid\<close>, a layer's \<^verbatim>\<open>material\<close>, an item's \<^verbatim>\<open>layers\<close> and
  a model's \<^verbatim>\<open>structure\<close>.  \<^verbatim>\<open>Sample\<close> stands for an object of any other class.
\<close>

datatype entity =
    Material int
  | Layer int entity
  | MultiLayer int "entity list"
  | RepeatingMultiLayer int "entity list"
  | Model int "entity list"
  | Sample int

fun uid :: "entity \<Rightarrow> int" where
  "uid (Material u) = u"
| "uid (Layer u m) = u"
| "uid (MultiLayer u ls) = u"
| "uid (RepeatingMultiLayer u ls) = u"
| "uid (Model u st) = u"
| "uid (Sample u) = u"

text \<open>The class attributes \<^verbatim>\<open>_material_link\<close>, \<^verbatim>\<open>_layer_link\<close>, \<^verbatim>\<open>_item_link\<close> and
  \<^verbatim>\<open>_model_link\<close>: Python dictionaries, kept as association lists in source order.\<close>

definition material_link :: "(string \<times> string) list" where
  "material_link = [(''sld'', ''real''), (''isld'', ''imag'')]"

definition layer_link :: "(string \<times> string) list" where
  "layer_link = [(''thickness'', ''thick''), (''roughness'', ''rough'')]"

definition item_link :: "(string \<times> string) list" where
  "item_link = [(''repetitions'', ''repeats'')]"

definition model_link :: "(string \<times> string) list" where
  "model_link = [(''scale'', ''scale''), (''background'', ''bkg''), (''resolution'', ''dq'')]"

subsection \<open>The calculator as the interface sees it\<close>

text \<open>One constructor per calculator method the interface calls with a structural
  effect, and one for each accessor call an \<^verbatim>\<open>ItemContainer\<close> makes.\<close>

datatype accessor =
    get_material_value | update_material
  | get_layer_value | update_layer
  | get_item_value | update_item
  | get_model_value | update_model

datatype call =
    Calc_create_material key
  | Calc_create_layer key
  | Calc_create_item key
  | Calc_create_model
  | Calc_assign_material_to_layer key key
  | Calc_add_layer_to_item key key
  | Calc_remove_layer_from_item key key
  | Calc_add_item key
  | Calc_remove_item key
  | Calc_reset_storage
  | Calc_get accessor key string
  | Calc_update accessor key string real

record refnx =
  calls :: "call list"
  profile :: "real list \<times> real list"

definition calc :: "call \<Rightarrow> refnx \<Rightarrow> refnx" where
  "calc c r = r\<lparr>calls := calls r @ [c]\<rparr>"

text \<open>\<^verbatim>\<open>ItemContainer(key, link, getter, setter)\<close>.\<close>

record item_container =
  link_name :: key
  name_conversion :: "(string \<times> string) list"
  getter_fn :: accessor
  setter_fn :: accessor

subsection \<open>The interface methods\<close>

definition assign_material_to_layer :: "int \<Rightarrow> key \<Rightarrow> refnx \<Rightarrow> refnx" where
  "assign_material_to_layer material_id layer_id r =
     calc (Calc_assign_material_to_layer (Uid material_id) layer_id) r"

definition add_layer_to_item :: "int \<Rightarrow> int \<Rightarrow> refnx \<Rightarrow> refnx" where
  "add_layer_to_item layer_id item_id r =
     calc (Calc_add_layer_to_item (Uid layer_id) (Uid item_id)) r"

definition remove_layer_from_item :: "int \<Rightarrow> int \<Rightarrow> refnx \<Rightarrow> refnx" where
  "remove_layer_from_item layer_id item_id r =
     calc (Calc_remove_layer_from_item (Uid layer_id) (Uid item_id)) r"

definition add_item_to_model :: "int \<Rightarrow> refnx \<Rightarrow> refnx" where
  "add_item_to_model item_id r = calc (Calc_add_item (Uid item_id)) r"

definition remove_item_from_model :: "int \<Rightarrow> refnx \<Rightarrow> refnx" where
  "remove_item_from_model item_id r = calc (Calc_remove_item (Uid item_id)) r"

definition reset_storage :: "refnx \<Rightarrow> refnx" where
  "reset_storage r = calc Calc_reset_storage r"

text \<open>The two \<^verbatim>\<open>for\<close> loops of \<^verbatim>\<open>create\<close>, over \<^verbatim>\<open>model.layers\<close> and over
  \<^verbatim>\<open>model.structure\<close>.\<close>

fun add_layers :: "entity list \<Rightarrow> int \<Rightarrow> refnx \<Rightarrow> refnx" where
  "add_layers [] item_id r = r"
| "add_layers (i # rest) item_id r = add_layers rest item_id (add_layer_to_item (uid i) item_id r)"

fun add_items :: "entity list \<Rightarrow> refnx \<Rightarrow> refnx" where
  "add_items [] r = r"
| "add_items (i # rest) r = add_items rest (add_item_to_model (uid i) r)"

text \<open>The body of the item branch, shared by both classes the \<^verbatim>\<open>elif\<close> accepts.\<close>

definition create_item_branch :: "int \<Rightarrow> entity list \<Rightarrow> refnx \<Rightarrow> item_container list \<times> refnx" where
  "create_item_branch u ls r =
     ([\<lparr>link_name = Uid u, name_conversion = item_link,
        getter_fn = get_item_value, setter_fn = update_item\<rparr>],
      add_layers ls u (calc (Calc_create_item (Uid u)) r))"

text \<open>\<^verbatim>\<open>Refnx.create\<close>: returns \<^verbatim>\<open>r_list\<close> and the calculator after the calls.\<close>

fun create :: "entity \<Rightarrow> refnx \<Rightarrow> item_container list \<times> refnx" where
  "create (Material u) r =
     ([\<lparr>link_name = Uid u, name_conversion = material_link,
        getter_fn = get_material_value, setter_fn = update_material\<rparr>],
      calc (Calc_create_material (Uid u)) r)"
| "create (Layer u m) r =
     ([\<lparr>link_name = Uid u, name_conversion = layer_link,
        getter_fn = get_layer_value, setter_fn = update_layer\<rparr>],
      assign_material_to_layer (uid m) (Uid u) (calc (Calc_create_layer (Uid u)) r))"
| "create (RepeatingMultiLayer u ls) r = create_item_branch u ls r"
| "create (MultiLayer u ls) r = create_item_branch u ls r"
| "create (Model u st) r =
     ([\<lparr>link_name = Name ''model'', name_conversion = model_link,
        getter_fn = get_model_value, setter_fn = update_model\<rparr>],
      add_items st (calc Calc_create_model r))"
| "create (Sample u) r = ([], r)"

text \<open>What the calculator has been told, read back from the calls it received: the
  layers added to an item and the items added to the model, in call order.\<close>

fun added_layers :: "key \<Rightarrow> call list \<Rightarrow> key list" where
  "added_layers it [] = []"
| "added_layers it (Calc_add_layer_to_item l it' # cs) =
     (if it' = it then l # added_layers it cs else added_layers it cs)"
| "added_layers it (c # cs) = added_layers it cs"

fun added_items :: "call list \<Rightarrow> key list" where
  "added_items [] = []"
| "added_items (Calc_add_item it # cs) = it # added_items cs"
| "added_items (c # cs) = added_items cs"

definition fresh_refnx :: refnx where
  "fresh_refnx = \<lparr>calls = [], profile = ([], [])\<rparr>"


section \<open>Parameters and constraints\<close>

text \<open>
  The layer and surfactant-layer classes work on \<^verbatim>\<open>Parameter\<close>, \<^verbatim>\<open>ObjConstraint\<close> and
  \<^verbatim>\<open>FunctionalConstraint\<close> objects.  These objects are shared by reference (one
  constraint object is registered with several parameters, one parameter is read by
  several constraints), so they live in an explicit store and are named by their
  addresses.  Python floating-point numbers are idealised as reals.
\<close>

datatype error =
    RangeError
  | ImmutableParameterError
  | RecursionError
  | NoSuchObject
  | TypeError
  | KeyError string
  | ValueError string
  | OtherError string

type_synonym pid = nat
type_synonym cid = nat

record parameter =
  p_name :: string
  raw_value :: real
  units :: string
  min_bound :: "real option"
  max_bound :: "real option"
  fixed :: bool
  enabled :: bool
  user_constraints :: "(string \<times> cid) list"

text \<open>The rule of a constraint: the mirror of an \<^verbatim>\<open>ObjConstraint\<close> with the empty
  operator, or the callable of a \<^verbatim>\<open>FunctionalConstraint\<close>, applied to the values of
  the independent parameters in their order.\<close>

datatype rule = ObjectMirror | Functional "real list \<Rightarrow> error + real"

record constraint =
  dependent_obj :: pid
  independent_objs :: "pid list"
  c_rule :: rule
  c_enabled :: bool

record store =
  params :: "pid \<Rightarrow> parameter option"
  constraints :: "cid \<Rightarrow> constraint option"
  next_pid :: pid
  next_cid :: cid

definition empty_store :: store where
  "empty_store = \<lparr>params = (\<lambda>p. None), constraints = (\<lambda>c. None), next_pid = 0, next_cid = 0\<rparr>"

text \<open>A computation on a state either returns a result or raises; in both cases the
  state it leaves behind is kept, as a Python exception keeps the mutations made
  before it.\<close>

type_synonym ('a, 's) comp = "'s \<Rightarrow> (error + 'a) \<times> 's"

definition returnM :: "'a \<Rightarrow> ('a, 's) comp" where
  "returnM a s = (Inr a, s)"

definition raiseM :: "error \<Rightarrow> ('a, 's) comp" where
  "raiseM e s = (Inl e, s)"

definition bindM :: "('a, 's) comp \<Rightarrow> ('a \<Rightarrow> ('b, 's) comp) \<Rightarrow> ('b, 's) comp" where
  "bindM m f s = (case m s of (Inl e, s') \<Rightarrow> (Inl e, s') | (Inr a, s') \<Rightarrow> f a s')"

definition liftE :: "error + 'a \<Rightarrow> ('a, 's) comp" where
  "liftE r s = (r, s)"

subsection \<open>Dictionaries with insertion order\<close>

text \<open>\<^verbatim>\<open>d[k] = v\<close> on a Python dictionary: an existing key keeps its place, a new key
  goes last.\<close>

fun dict_set :: "'k \<Rightarrow> 'v \<Rightarrow> ('k \<times> 'v) list \<Rightarrow> ('k \<times> 'v) list" where
  "dict_set k v [] = [(k, v)]"
| "dict_set k v ((k', v') # d) = (if k' = k then (k, v) # d else (k', v') # dict_set k v d)"

definition dict_get :: "'k \<Rightarrow> ('k \<times> 'v) list \<Rightarrow> 'v option" where
  "dict_get k d = map_of d k"

subsection \<open>The constraint engine\<close>

text \<open>
  Modelled from the spec: the classes \<^verbatim>\<open>Parameter\<close>, \<^verbatim>\<open>ObjConstraint\<close> and
  \<^verbatim>\<open>FunctionalConstraint\<close> come from the easyCore library and are not among the
  sources.  The definitions of this subsection follow the specification's data model
  and its constraint graph engine (sections 3 and 4.1): a write is rejected with
  ImmutableParameterError when the parameter is fixed and the write does not come
  from a constraint, and with RangeError when the value is outside the bounds; an
  accepted write stores the value and then, for every enabled constraint registered
  with the parameter, in registration order and depth first, recomputes the
  dependent parameter and writes it in the same way.  Enabling a constraint pushes
  its dependent to the value its rule gives; disabling only clears the flag.  The
  specification leaves the recursion unbounded; here it carries Python's recursion
  limit as an explicit bound, and exceeding it raises RecursionError.  A constraint
  is enabled when it is created (the layer classes never enable the ones they
  create), and so is a parameter.
\<close>

record details =
  d_value :: real
  d_units :: string
  d_min :: "real option"
  d_max :: "real option"
  d_fixed :: bool

definition Parameter :: "string \<Rightarrow> real \<Rightarrow> details \<Rightarrow> store \<Rightarrow> pid \<times> store" where
  "Parameter nm v d s =
     (next_pid s,
      s\<lparr>params := (params s)(next_pid s \<mapsto>
           \<lparr>p_name = nm, raw_value = v, units = d_units d, min_bound = d_min d,
            max_bound = d_max d, fixed = d_fixed d, enabled = True, user_constraints = []\<rparr>),
        next_pid := Suc (next_pid s)\<rparr>)"

definition new_constraint :: "constraint \<Rightarrow> store \<Rightarrow> cid \<times> store" where
  "new_constraint c s =
     (next_cid s, s\<lparr>constraints := (constraints s)(next_cid s \<mapsto> c), next_cid := Suc (next_cid s)\<rparr>)"

definition ObjConstraint :: "pid \<Rightarrow> string \<Rightarrow> pid \<Rightarrow> store \<Rightarrow> cid \<times> store" where
  "ObjConstraint dep operator indep s =
     new_constraint \<lparr>dependent_obj = dep, independent_objs = [indep],
                     c_rule = ObjectMirror, c_enabled = True\<rparr> s"

definition FunctionalConstraint ::
  "pid \<Rightarrow> (real list \<Rightarrow> error + real) \<Rightarrow> pid list \<Rightarrow> store \<Rightarrow> cid \<times> store" where
  "FunctionalConstraint dep func indeps s =
     new_constraint \<lparr>dependent_obj = dep, independent_objs = indeps,
                     c_rule = Functional func, c_enabled = True\<rparr> s"

definition get_raw_value :: "pid \<Rightarrow> store \<Rightarrow> error + real" where
  "get_raw_value p s = (case params s p of None \<Rightarrow> Inl NoSuchObject | Some par \<Rightarrow> Inr (raw_value par))"

fun raw_values :: "pid list \<Rightarrow> store \<Rightarrow> error + real list" where
  "raw_values [] s = Inr []"
| "raw_values (p # ps) s =
     (case get_raw_value p s of
        Inl e \<Rightarrow> Inl e
      | Inr v \<Rightarrow> (case raw_values ps s of Inl e \<Rightarrow> Inl e | Inr vs \<Rightarrow> Inr (v # vs)))"

definition evaluate :: "constraint \<Rightarrow> store \<Rightarrow> error + real" where
  "evaluate c s =
     (case raw_values (independent_objs c) s of
        Inl e \<Rightarrow> Inl e
      | Inr vs \<Rightarrow>
          (case c_rule c of
             ObjectMirror \<Rightarrow> (case vs of [v] \<Rightarrow> Inr v | _ \<Rightarrow> Inl TypeError)
           | Functional func \<Rightarrow> func vs))"

definition within_bounds :: "parameter \<Rightarrow> real \<Rightarrow> bool" where
  "within_bounds par v =
     ((case min_bound par of None \<Rightarrow> True | Some lo \<Rightarrow> lo \<le> v)
      \<and> (case max_bound par of None \<Rightarrow> True | Some hi \<Rightarrow> v \<le> hi))"

definition store_value :: "pid \<Rightarrow> parameter \<Rightarrow> real \<Rightarrow> store \<Rightarrow> store" where
  "store_value p par v s = s\<lparr>params := (params s)(p \<mapsto> par\<lparr>raw_value := v\<rparr>)\<rparr>"

text \<open>Forward propagation over the constraints registered with a parameter;
  \<open>wr\<close> is the write used for the dependents.\<close>

fun propagate :: "(pid \<Rightarrow> real \<Rightarrow> (unit, store) comp) \<Rightarrow> cid list \<Rightarrow> (unit, store) comp" where
  "propagate wr [] s = (Inr (), s)"
| "propagate wr (c # cs) s =
     (case constraints s c of
        None \<Rightarrow> (Inl NoSuchObject, s)
      | Some con \<Rightarrow>
          if c_enabled con then
            (case evaluate con s of
               Inl e \<Rightarrow> (Inl e, s)
             | Inr v \<Rightarrow>
                 (case wr (dependent_obj con) v s of
                    (Inl e, s') \<Rightarrow> (Inl e, s')
                  | (Inr u, s') \<Rightarrow> propagate wr cs s'))
          else propagate wr cs s)"

text \<open>\<open>set_value limit by_constraint p v\<close>: the assignment \<^verbatim>\<open>p.value = v\<close>, from the
  caller (\<open>by_constraint = False\<close>) or from a constraint resolving \<open>p\<close> as its
  dependent.\<close>

primrec set_value :: "nat \<Rightarrow> bool \<Rightarrow> pid \<Rightarrow> real \<Rightarrow> (unit, store) comp" where
  "set_value 0 by_constraint p v s = (Inl RecursionError, s)"
| "set_value (Suc n) by_constraint p v s =
     (case params s p of
        None \<Rightarrow> (Inl NoSuchObject, s)
      | Some par \<Rightarrow>
          if fixed par \<and> \<not> by_constraint then (Inl ImmutableParameterError, s)
          else if \<not> within_bounds par v then (Inl RangeError, s)
          else propagate (set_value n True) (map snd (user_constraints par)) (store_value p par v s))"

text \<open>\<^verbatim>\<open>c.enabled = x\<close> on a constraint.\<close>

definition set_constraint_enabled :: "nat \<Rightarrow> cid \<Rightarrow> bool \<Rightarrow> (unit, store) comp" where
  "set_constraint_enabled n c x s =
     (case constraints s c of
        None \<Rightarrow> (Inl NoSuchObject, s)
      | Some con \<Rightarrow>
          let s' = s\<lparr>constraints := (constraints s)(c \<mapsto> con\<lparr>c_enabled := x\<rparr>)\<rparr>
          in if x then propagate (set_value n True) [c] s' else (Inr (), s'))"

text \<open>\<^verbatim>\<open>p.enabled = x\<close> on a parameter: the flag alone.\<close>

definition set_parameter_enabled :: "pid \<Rightarrow> bool \<Rightarrow> (unit, store) comp" where
  "set_parameter_enabled p x s =
     (case params s p of
        None \<Rightarrow> (Inl NoSuchObject, s)
      | Some par \<Rightarrow> (Inr (), s\<lparr>params := (params s)(p \<mapsto> par\<lparr>enabled := x\<rparr>)\<rparr>))"

text \<open>\<^verbatim>\<open>p.user_constraints[k] = c\<close>, a plain dictionary assignment, and the lookup
  \<^verbatim>\<open>p.user_constraints[k]\<close>, which raises KeyError on a missing key.\<close>

definition set_user_constraint :: "pid \<Rightarrow> string \<Rightarrow> cid \<Rightarrow> (unit, store) comp" where
  "set_user_constraint p k c s =
     (case params s p of
        None \<Rightarrow> (Inl NoSuchObject, s)
      | Some par \<Rightarrow>
          (Inr (), s\<lparr>params := (params s)(p \<mapsto> par\<lparr>user_constraints := dict_set k c (user_constraints par)\<rparr>)\<rparr>))"

definition get_user_constraint :: "pid \<Rightarrow> string \<Rightarrow> store \<Rightarrow> error + cid" where
  "get_user_constraint p k s =
     (case params s p of
        None \<Rightarrow> Inl NoSuchObject
      | Some par \<Rightarrow> (case dict_get k (user_constraints par) of None \<Rightarrow> Inl (KeyError k) | Some c \<Rightarrow> Inr c))"

definition constraint_enabled :: "cid \<Rightarrow> store \<Rightarrow> error + bool" where
  "constraint_enabled c s =
     (case constraints s c of None \<Rightarrow> Inl NoSuchObject | Some con \<Rightarrow> Inr (c_enabled con))"

text \<open>\<^verbatim>\<open>p.fixed = x\<close> on a parameter: the flag alone.\<close>

definition set_parameter_fixed :: "pid \<Rightarrow> bool \<Rightarrow> (unit, store) comp" where
  "set_parameter_fixed p x s =
     (case params s p of
        None \<Rightarrow> (Inl NoSuchObject, s)
      | Some par \<Rightarrow> (Inr (), s\<lparr>params := (params s)(p \<mapsto> par\<lparr>fixed := x\<rparr>)\<rparr>))"



section \<open>Layers defined by an area per molecule\<close>

text \<open>
  \<^verbatim>\<open>src/EasyReflectometry/sample/elements/layers/layer_apm.py\<close> and
  \<^verbatim>\<open>layer_area_per_molecule.py\<close>.  Descriptions and URLs of the parameter details are
  documentation only and are left out; \<^verbatim>\<open>np.inf\<close> as a bound is \<open>None\<close>.
\<close>

text \<open>The parameter names and units of the sources, as named constants.\<close>

definition angstrom :: string where "angstrom = ''angstrom''"
definition angstrom_squared :: string where "angstrom_squared = ''angstrom ** 2''"
definition per_angstrom_squared :: string where "per_angstrom_squared = ''1 / angstrom ** 2''"
definition dimensionless :: string where "dimensionless = ''dimensionless''"
definition name_scattering_length_real :: string where "name_scattering_length_real = ''scattering_length_real''"
definition name_scattering_length_imag :: string where "name_scattering_length_imag = ''scattering_length_imag''"
definition name_area_per_molecule :: string where "name_area_per_molecule = ''area_per_molecule''"
definition name_roughness :: string where "name_roughness = ''roughness''"
definition name_thickness :: string where "name_thickness = ''thickness''"
definition name_solvation :: string where "name_solvation = ''solvation''"
definition name_sld :: string where "name_sld = ''sld''"
definition name_isld :: string where "name_isld = ''isld''"

definition details_roughness :: details where
  "details_roughness = \<lparr>d_value = 3, d_units = angstrom, d_min = Some 0, d_max = None, d_fixed = True\<rparr>"

definition details_area_per_molecule :: details where
  "details_area_per_molecule =
     \<lparr>d_value = 48.2, d_units = angstrom_squared, d_min = Some 0, d_max = None, d_fixed = True\<rparr>"

definition details_sl :: details where
  "details_sl = \<lparr>d_value = 4.186, d_units = angstrom, d_min = None, d_max = None, d_fixed = True\<rparr>"

definition details_isl :: details where
  "details_isl = \<lparr>d_value = 0, d_units = angstrom, d_min = None, d_max = None, d_fixed = True\<rparr>"

subsection \<open>Materials\<close>

text \<open>
  Modelled from the spec: the classes \<^verbatim>\<open>Material\<close> and \<^verbatim>\<open>MaterialSolvated\<close> are not
  among the sources.  By the specification's data model a Material carries the two
  parameters sld and isld, and a solvated mixture adds the solvent and the solvent
  fraction.  \<^verbatim>\<open>Material.from_pars\<close> creates the two parameters with the values it is
  given; the specification states no bounds for them, so they are unbounded.  The
  mixture keeps the parameter it receives as \<^verbatim>\<open>solvation\<close> under the attribute
  \<^verbatim>\<open>fraction\<close>, the one the layer classes read; \<open>solvation_attr\<close> is the instance
  attribute \<^verbatim>\<open>solvation\<close>, absent until something assigns it.
\<close>

record mat =
  m_name :: string
  sld :: pid
  isld :: pid

definition details_material :: details where
  "details_material = \<lparr>d_value = 0, d_units = per_angstrom_squared, d_min = None, d_max = None, d_fixed = True\<rparr>"

definition Material_from_pars :: "real \<Rightarrow> real \<Rightarrow> string \<Rightarrow> store \<Rightarrow> mat \<times> store" where
  "Material_from_pars sld_value isld_value nm s =
     (case Parameter name_sld sld_value details_material s of (p1, s1) \<Rightarrow>
      case Parameter name_isld isld_value details_material s1 of (p2, s2) \<Rightarrow>
        (\<lparr>m_name = nm, sld = p1, isld = p2\<rparr>, s2))"

record solvated =
  ms_name :: string
  ms_material :: mat
  solvent :: mat
  fraction :: pid
  solvation_attr :: "real option"

definition MaterialSolvated :: "mat \<Rightarrow> mat \<Rightarrow> pid \<Rightarrow> string \<Rightarrow> solvated" where
  "MaterialSolvated m solv solvation_par nm =
     \<lparr>ms_name = nm, ms_material = m, solvent = solv, fraction = solvation_par, solvation_attr = None\<rparr>"

subsection \<open>The layer objects and their constructors\<close>

record layer =
  l_name :: string
  material :: solvated
  thickness :: pid
  roughness :: pid
  scattering_length_real :: pid
  scattering_length_imag :: pid
  area_per_molecule :: pid
  coverage :: "pid option"
  molecular_formula :: string

definition pure_step :: "('s \<Rightarrow> 'a \<times> 's) \<Rightarrow> ('a, 's) comp" where
  "pure_step f s = (case f s of (a, s') \<Rightarrow> (Inr a, s'))"

definition read_step :: "('s \<Rightarrow> error + 'a) \<Rightarrow> ('a, 's) comp" where
  "read_step f s = (f s, s)"

text \<open>The callable handed to \<^verbatim>\<open>FunctionalConstraint\<close> is called with the values of the
  three independent parameters as positional arguments.\<close>

definition call3 :: "(real \<Rightarrow> real \<Rightarrow> real \<Rightarrow> error + real) \<Rightarrow> real list \<Rightarrow> error + real" where
  "call3 f vs = (case vs of [a, b, c] \<Rightarrow> f a b c | _ \<Rightarrow> Inl TypeError)"

text \<open>
  The body the two \<^verbatim>\<open>__init__\<close> methods share.  The functions
  \<^verbatim>\<open>neutron_scattering_length\<close> and \<^verbatim>\<open>apm_to_sld\<close> (\<^verbatim>\<open>area_per_molecule_to_sld\<close>) are
  imported from \<^verbatim>\<open>EasyReflectometry.special.calculations\<close>, which is not among the
  sources: they are the parameters \<open>nsl\<close> and \<open>to_sld\<close>, and either may raise.  The
  two classes differ in the keys under which the constraints are registered, in the
  name given to the solvated material and in the \<^verbatim>\<open>coverage\<close> component.
\<close>

definition layer_init ::
  "(string \<Rightarrow> error + complex) \<Rightarrow> (real \<Rightarrow> real \<Rightarrow> real \<Rightarrow> error + real) \<Rightarrow> string \<Rightarrow> string \<Rightarrow>
   string \<Rightarrow> pid option \<Rightarrow>
   string \<Rightarrow> pid \<Rightarrow> mat \<Rightarrow> pid \<Rightarrow> pid \<Rightarrow> pid \<Rightarrow> string \<Rightarrow> (layer, store) comp" where
  "layer_init nsl to_sld key ikey solvated_name coverage_par
     formula thickness_par solvent_mat solvation_par area_per_molecule_par roughness_par nm =
   bindM (liftE (nsl formula)) (\<lambda>scattering_length.
   bindM (pure_step (Parameter name_scattering_length_real (Re scattering_length) details_sl)) (\<lambda>sl_real.
   bindM (pure_step (Parameter name_scattering_length_imag (Im scattering_length) details_isl)) (\<lambda>sl_imag.
   bindM (read_step (get_raw_value sl_real)) (\<lambda>v_real.
   bindM (read_step (get_raw_value thickness_par)) (\<lambda>v_thickness.
   bindM (read_step (get_raw_value area_per_molecule_par)) (\<lambda>v_apm.
   bindM (liftE (to_sld v_real v_thickness v_apm)) (\<lambda>sld_value.
   bindM (read_step (get_raw_value sl_imag)) (\<lambda>v_imag.
   bindM (liftE (to_sld v_imag v_thickness v_apm)) (\<lambda>isld_value.
   bindM (pure_step (Material_from_pars sld_value isld_value formula)) (\<lambda>m.
   bindM (pure_step (FunctionalConstraint (sld m) (call3 to_sld)
                       [sl_real, thickness_par, area_per_molecule_par])) (\<lambda>constraint.
   bindM (set_user_constraint thickness_par key constraint) (\<lambda>_.
   bindM (set_user_constraint area_per_molecule_par key constraint) (\<lambda>_.
   bindM (set_user_constraint sl_real key constraint) (\<lambda>_.
   bindM (pure_step (FunctionalConstraint (isld m) (call3 to_sld)
                       [sl_imag, thickness_par, area_per_molecule_par])) (\<lambda>iconstraint.
   bindM (set_user_constraint thickness_par ikey iconstraint) (\<lambda>_.
   bindM (set_user_constraint area_per_molecule_par ikey iconstraint) (\<lambda>_.
   bindM (set_user_constraint sl_imag ikey iconstraint) (\<lambda>_.
   returnM
     \<lparr>l_name = nm,
      material = MaterialSolvated m solvent_mat solvation_par solvated_name,
      thickness = thickness_par, roughness = roughness_par,
      scattering_length_real = sl_real, scattering_length_imag = sl_imag,
      area_per_molecule = area_per_molecule_par, coverage = coverage_par,
      molecular_formula = formula\<rparr>))))))))))))))))))"

text \<open>\<^verbatim>\<open>LayerApm.__init__\<close>: keys \<^verbatim>\<open>'apm'\<close> and \<^verbatim>\<open>'iapm'\<close>, the solvated material is named
  formula, slash, solvent name.\<close>

definition LayerApm_init ::
  "(string \<Rightarrow> error + complex) \<Rightarrow> (real \<Rightarrow> real \<Rightarrow> real \<Rightarrow> error + real) \<Rightarrow>
   string \<Rightarrow> pid \<Rightarrow> mat \<Rightarrow> pid \<Rightarrow> pid \<Rightarrow> pid \<Rightarrow> string \<Rightarrow> (layer, store) comp" where
  "LayerApm_init nsl apm_to_sld formula thickness_par solvent_mat solvation_par area_per_molecule_par roughness_par nm =
     layer_init nsl apm_to_sld ''apm'' ''iapm'' (formula @ ''/'' @ m_name solvent_mat) None
       formula thickness_par solvent_mat solvation_par area_per_molecule_par roughness_par nm"


subsection \<open>The properties of a layer\<close>

text \<open>The \<^verbatim>\<open>solvation\<close> property, the same in both classes: the getter returns
  \<^verbatim>\<open>self.material.fraction\<close>, the setter assigns \<^verbatim>\<open>self.material.solvation\<close>.\<close>

definition solvation_getter :: "layer \<Rightarrow> pid" where
  "solvation_getter self = fraction (material self)"

definition solvation_setter :: "real \<Rightarrow> layer \<Rightarrow> layer" where
  "solvation_setter v self = self\<lparr>material := (material self)\<lparr>solvation_attr := Some v\<rparr>\<rparr>"

definition solvent_getter :: "layer \<Rightarrow> mat" where
  "solvent_getter self = solvent (material self)"

definition solvent_setter :: "mat \<Rightarrow> layer \<Rightarrow> layer" where
  "solvent_setter new_solvent self = self\<lparr>material := (material self)\<lparr>solvent := new_solvent\<rparr>\<rparr>"


section \<open>The surfactant layer\<close>

text \<open>
  \<^verbatim>\<open>src/EasyReflectometry/sample/items/surfactant_layer.py\<close>.  A surfactant layer holds
  its two layers; the components \<^verbatim>\<open>area_per_molecule\<close> and \<^verbatim>\<open>roughness\<close> are added by
  the first call of the corresponding setter, so each is optional (\<^verbatim>\<open>hasattr\<close>).  The
  setters change both the object and the store, and the object is part of the
  state they work on.
\<close>

record surfactant_layer =
  s_name :: string
  layer1 :: layer
  layer2 :: layer
  area_per_molecule_component :: "pid option"
  roughness_component :: "pid option"

definition SurfactantLayer_init :: "layer \<Rightarrow> layer \<Rightarrow> string \<Rightarrow> surfactant_layer" where
  "SurfactantLayer_init l1 l2 nm =
     \<lparr>s_name = nm, layer1 = l1, layer2 = l2,
      area_per_molecule_component = None, roughness_component = None\<rparr>"

definition in_store :: "('a, store) comp \<Rightarrow> ('a, surfactant_layer \<times> store) comp" where
  "in_store m w = (case m (snd w) of (r, s') \<Rightarrow> (r, (fst w, s')))"

definition add_area_per_molecule :: "pid \<Rightarrow> (unit, surfactant_layer \<times> store) comp" where
  "add_area_per_molecule p w = (Inr (), ((fst w)\<lparr>area_per_molecule_component := Some p\<rparr>, snd w))"

definition add_roughness :: "pid \<Rightarrow> (unit, surfactant_layer \<times> store) comp" where
  "add_roughness p w = (Inr (), ((fst w)\<lparr>roughness_component := Some p\<rparr>, snd w))"

subsection \<open>\<^verbatim>\<open>constrain_apm\<close>\<close>

text \<open>The getter.  Python's \<^verbatim>\<open>and\<close> evaluates its second operand only when the first
  is true.\<close>

definition both_enabled :: "pid \<Rightarrow> string \<Rightarrow> string \<Rightarrow> store \<Rightarrow> error + bool" where
  "both_enabled p k1 k2 s =
     (case get_user_constraint p k1 s of
        Inl e \<Rightarrow> Inl e
      | Inr c1 \<Rightarrow>
          (case constraint_enabled c1 s of
             Inl e \<Rightarrow> Inl e
           | Inr e1 \<Rightarrow>
               if e1 then
                 (case get_user_constraint p k2 s of
                    Inl e \<Rightarrow> Inl e
                  | Inr c2 \<Rightarrow> constraint_enabled c2 s)
               else Inr False))"

definition constrain_apm_getter :: "surfactant_layer \<Rightarrow> store \<Rightarrow> error + bool" where
  "constrain_apm_getter self s =
     (case area_per_molecule_component self of
        Some p \<Rightarrow> both_enabled p ''apm1'' ''apm2'' s
      | None \<Rightarrow> Inr False)"

text \<open>The body of \<^verbatim>\<open>if not hasattr(self, 'area_per_molecule')\<close>.\<close>

definition constrain_apm_create :: "nat \<Rightarrow> layer \<Rightarrow> layer \<Rightarrow> (unit, surfactant_layer \<times> store) comp" where
  "constrain_apm_create n l1 l2 =
   bindM (in_store (read_step (get_raw_value (area_per_molecule l1)))) (\<lambda>v.
   bindM (in_store (pure_step (Parameter name_area_per_molecule v details_area_per_molecule))) (\<lambda>p.
   bindM (add_area_per_molecule p) (\<lambda>_.
   bindM (in_store (read_step (get_raw_value (area_per_molecule l1)))) (\<lambda>v1.
   bindM (in_store (set_value n False (area_per_molecule l2) v1)) (\<lambda>_.
   bindM (in_store (pure_step (ObjConstraint (area_per_molecule l1) [] p))) (\<lambda>apm1.
   bindM (in_store (pure_step (ObjConstraint (area_per_molecule l2) [] p))) (\<lambda>apm2.
   bindM (in_store (set_user_constraint p ''apm1'' apm1)) (\<lambda>_.
   in_store (set_user_constraint p ''apm2'' apm2)))))))))"

text \<open>The three assignments every call of the setter ends with.\<close>

definition constrain_apm_flags :: "nat \<Rightarrow> pid \<Rightarrow> bool \<Rightarrow> (unit, store) comp" where
  "constrain_apm_flags n p x =
   bindM (read_step (get_user_constraint p ''apm1'')) (\<lambda>c1.
   bindM (set_constraint_enabled n c1 x) (\<lambda>_.
   bindM (read_step (get_user_constraint p ''apm2'')) (\<lambda>c2.
   bindM (set_constraint_enabled n c2 x) (\<lambda>_.
   set_parameter_enabled p x))))"

definition constrain_apm_setter :: "nat \<Rightarrow> bool \<Rightarrow> (unit, surfactant_layer \<times> store) comp" where
  "constrain_apm_setter n x w =
     bindM (case area_per_molecule_component (fst w) of
              None \<Rightarrow> constrain_apm_create n (layer1 (fst w)) (layer2 (fst w))
            | Some p \<Rightarrow> returnM ())
       (\<lambda>_ w'. case area_per_molecule_component (fst w') of
                  None \<Rightarrow> (Inl (OtherError ''AttributeError''), w')
                | Some p \<Rightarrow> in_store (constrain_apm_flags n p x) w') w"

subsection \<open>\<^verbatim>\<open>conformal_roughness\<close>\<close>

definition conformal_roughness_getter :: "surfactant_layer \<Rightarrow> store \<Rightarrow> error + bool" where
  "conformal_roughness_getter self s =
     (case roughness_component self of
        Some p \<Rightarrow> both_enabled p ''roughness1'' ''roughness2'' s
      | None \<Rightarrow> Inr False)"

definition conformal_roughness_create :: "nat \<Rightarrow> layer \<Rightarrow> layer \<Rightarrow> (unit, surfactant_layer \<times> store) comp" where
  "conformal_roughness_create n l1 l2 =
   bindM (in_store (read_step (get_raw_value (roughness l1)))) (\<lambda>v.
   bindM (in_store (pure_step (Parameter name_roughness v details_roughness))) (\<lambda>p.
   bindM (add_roughness p) (\<lambda>_.
   bindM (in_store (read_step (get_raw_value (roughness l1)))) (\<lambda>v1.
   bindM (in_store (set_value n False (roughness l2) v1)) (\<lambda>_.
   bindM (in_store (pure_step (ObjConstraint (roughness l1) [] p))) (\<lambda>roughness1.
   bindM (in_store (pure_step (ObjConstraint (roughness l2) [] p))) (\<lambda>roughness2.
   bindM (in_store (set_user_constraint p ''roughness1'' roughness1)) (\<lambda>_.
   in_store (set_user_constraint p ''roughness2'' roughness2)))))))))"

definition conformal_roughness_flags :: "nat \<Rightarrow> pid \<Rightarrow> bool \<Rightarrow> (unit, store) comp" where
  "conformal_roughness_flags n p x =
   bindM (read_step (get_user_constraint p ''roughness1'')) (\<lambda>c1.
   bindM (set_constraint_enabled n c1 x) (\<lambda>_.
   bindM (read_step (get_user_constraint p ''roughness2'')) (\<lambda>c2.
   set_constraint_enabled n c2 x)))"

definition conformal_roughness_setter :: "nat \<Rightarrow> bool \<Rightarrow> (unit, surfactant_layer \<times> store) comp" where
  "conformal_roughness_setter n x w =
     bindM (case roughness_component (fst w) of
              None \<Rightarrow> conformal_roughness_create n (layer1 (fst w)) (layer2 (fst w))
            | Some p \<Rightarrow> returnM ())
       (\<lambda>_ w'. case roughness_component (fst w') of
                  None \<Rightarrow> (Inl (OtherError ''AttributeError''), w')
                | Some p \<Rightarrow> in_store (conformal_roughness_flags n p x) w') w"

subsection \<open>\<^verbatim>\<open>constrain_solvent_roughness\<close>\<close>

text \<open>The guard comes first and raises \<^verbatim>\<open>ValueError\<close>; only then is the solvent
  roughness written and the constraint created and registered.\<close>

definition constrain_solvent_roughness :: "nat \<Rightarrow> pid \<Rightarrow> (unit, surfactant_layer \<times> store) comp" where
  "constrain_solvent_roughness n solvent_roughness w =
     (case conformal_roughness_getter (fst w) (snd w) of
        Inl e \<Rightarrow> (Inl e, w)
      | Inr conformal \<Rightarrow>
          if \<not> conformal then
            (Inl (ValueError ''Roughness must be conformal to use this function.''), w)
          else
            (case roughness_component (fst w) of
               None \<Rightarrow> (Inl (OtherError ''AttributeError''), w)
             | Some p \<Rightarrow>
                 in_store
                   (bindM (read_step (get_raw_value p)) (\<lambda>v.
                    bindM (set_value n False solvent_roughness v) (\<lambda>_.
                    bindM (pure_step (ObjConstraint solvent_roughness [] p)) (\<lambda>rough.
                    set_user_constraint p ''solvent_roughness'' rough)))) w))"

subsection \<open>\<^verbatim>\<open>constain_multiple_contrast\<close>\<close>

text \<open>One block of the method: when the flag is set, a mirror constraint from the
  other contrast's parameter to this one's, registered with the other contrast's
  parameter under the other contrast's name.\<close>

definition contrast_link :: "bool \<Rightarrow> pid \<Rightarrow> pid \<Rightarrow> string \<Rightarrow> (unit, store) comp" where
  "contrast_link flag mine theirs their_name =
     (if flag then
        bindM (pure_step (ObjConstraint mine [] theirs)) (\<lambda>c.
        set_user_constraint theirs their_name c)
      else returnM ())"

definition constain_multiple_contrast ::
  "surfactant_layer \<Rightarrow> surfactant_layer \<Rightarrow> bool \<Rightarrow> bool \<Rightarrow> bool \<Rightarrow> bool \<Rightarrow> bool \<Rightarrow> bool \<Rightarrow> (unit, store) comp" where
  "constain_multiple_contrast self another_contrast layer1_thickness layer2_thickness
     layer1_area_per_molecule layer2_area_per_molecule layer1_fraction layer2_fraction =
   bindM (contrast_link layer1_thickness
            (thickness (layer1 self)) (thickness (layer1 another_contrast)) (s_name another_contrast)) (\<lambda>_.
   bindM (contrast_link layer2_thickness
            (thickness (layer2 self)) (thickness (layer2 another_contrast)) (s_name another_contrast)) (\<lambda>_.
   bindM (contrast_link layer1_area_per_molecule
            (area_per_molecule (layer1 self)) (area_per_molecule (layer1 another_contrast))
            (s_name another_contrast)) (\<lambda>_.
   bindM (contrast_link layer2_area_per_molecule
            (area_per_molecule (layer2 self)) (area_per_molecule (layer2 another_contrast))
            (s_name another_contrast)) (\<lambda>_.
   bindM (contrast_link layer1_fraction
            (fraction (material (layer1 self))) (fraction (material (layer1 another_contrast)))
            (s_name another_contrast)) (\<lambda>_.
   contrast_link layer2_fraction
     (fraction (material (layer2 self))) (fraction (material (layer2 another_contrast)))
     (s_name another_contrast))))))"


section \<open>The interface factory\<close>


text \<open>
  \<^verbatim>\<open>Refnx.sld_profile\<close> of \<^verbatim>\<open>src/EasyReflectometryLib/interfaces/refnx.py\<close> is declared
  as \<^verbatim>\<open>sld_profile(self)\<close> and returns \<^verbatim>\<open>self.calculator.sld_profile()\<close>.  A Python call
  with more positional arguments than the method declares raises \<^verbatim>\<open>TypeError\<close> before
  the body runs, so the method takes the list of the arguments it is called with.
\<close>

definition Refnx_sld_profile :: "refnx \<Rightarrow> string list \<Rightarrow> error + (real list \<times> real list)" where
  "Refnx_sld_profile r args = (case args of [] \<Rightarrow> Inr (profile r) | _ \<Rightarrow> Inl TypeError)"




section \<open>Observations on the store\<close>

text \<open>The constraints registered with a parameter, the value a parameter would have
  after a plain overwrite, and the two constraint objects a layer constructor
  creates.\<close>

definition constraints_of :: "pid \<Rightarrow> store \<Rightarrow> (string \<times> cid) list option" where
  "constraints_of p s = map_option user_constraints (params s p)"

definition poke :: "pid \<Rightarrow> real \<Rightarrow> store \<Rightarrow> store" where
  "poke p v s = (case params s p of None \<Rightarrow> s | Some par \<Rightarrow> store_value p par v s)"

definition functional :: "(real \<Rightarrow> real \<Rightarrow> real \<Rightarrow> error + real) \<Rightarrow> pid \<Rightarrow> pid list \<Rightarrow> constraint" where
  "functional f d ps =
     \<lparr>dependent_obj = d, independent_objs = ps, c_rule = Functional (call3 f), c_enabled = True\<rparr>"

definition mirror :: "pid \<Rightarrow> pid \<Rightarrow> bool \<Rightarrow> constraint" where
  "mirror d p on =
     \<lparr>dependent_obj = d, independent_objs = [p], c_rule = ObjectMirror, c_enabled = on\<rparr>"

definition material_sld :: "layer \<Rightarrow> pid" where
  "material_sld l = sld (ms_material (material l))"

definition material_isld :: "layer \<Rightarrow> pid" where
  "material_isld l = isld (ms_material (material l))"

text \<open>
  The state a layer constructor leaves its parameters in: the six parameters are
  different objects, the real constraint \<open>c\<close> is registered with the real
  scattering length, the thickness and the area per molecule, the imaginary one
  \<open>ic\<close> with the imaginary scattering length, the thickness and the area per
  molecule, nothing else is registered with them, and nothing is registered with
  the material's sld and isld.
\<close>

definition layer_wired ::
  "(real \<Rightarrow> real \<Rightarrow> real \<Rightarrow> error + real) \<Rightarrow> string \<Rightarrow> string \<Rightarrow> cid \<Rightarrow> cid \<Rightarrow> layer \<Rightarrow> store \<Rightarrow> bool" where
  "layer_wired f key ikey c ic l s =
     (distinct [thickness l, area_per_molecule l, scattering_length_real l,
                scattering_length_imag l, material_sld l, material_isld l]
      \<and> constraints_of (thickness l) s = Some [(key, c), (ikey, ic)]
      \<and> constraints_of (area_per_molecule l) s = Some [(key, c), (ikey, ic)]
      \<and> constraints_of (scattering_length_real l) s = Some [(key, c)]
      \<and> constraints_of (scattering_length_imag l) s = Some [(ikey, ic)]
      \<and> constraints_of (material_sld l) s = Some []
      \<and> constraints_of (material_isld l) s = Some []
      \<and> constraints s c =
          Some (functional f (material_sld l)
                  [scattering_length_real l, thickness l, area_per_molecule l])
      \<and> constraints s ic =
          Some (functional f (material_isld l)
                  [scattering_length_imag l, thickness l, area_per_molecule l]))"

text \<open>The relation the constraints maintain: the material's sld (isld) is what the
  conversion function gives for the current real (imaginary) scattering length,
  thickness and area per molecule.\<close>

definition sld_consistent :: "(real \<Rightarrow> real \<Rightarrow> real \<Rightarrow> error + real) \<Rightarrow> layer \<Rightarrow> store \<Rightarrow> bool" where
  "sld_consistent f l s =
     (case (get_raw_value (scattering_length_real l) s, get_raw_value (thickness l) s,
            get_raw_value (area_per_molecule l) s, get_raw_value (material_sld l) s) of
        (Inr v_real, Inr v_thickness, Inr v_apm, Inr v_sld) \<Rightarrow> f v_real v_thickness v_apm = Inr v_sld
      | _ \<Rightarrow> False)"

definition isld_consistent :: "(real \<Rightarrow> real \<Rightarrow> real \<Rightarrow> error + real) \<Rightarrow> layer \<Rightarrow> store \<Rightarrow> bool" where
  "isld_consistent f l s =
     (case (get_raw_value (scattering_length_imag l) s, get_raw_value (thickness l) s,
            get_raw_value (area_per_molecule l) s, get_raw_value (material_isld l) s) of
        (Inr v_imag, Inr v_thickness, Inr v_apm, Inr v_isld) \<Rightarrow> f v_imag v_thickness v_apm = Inr v_isld
      | _ \<Rightarrow> False)"

text \<open>The store after each of the three primitive steps, for stating what a
  constructor leaves behind.\<close>

definition allocated :: "string \<Rightarrow> real \<Rightarrow> details \<Rightarrow> store \<Rightarrow> store" where
  "allocated nm v d s = snd (Parameter nm v d s)"

definition with_constraint :: "constraint \<Rightarrow> store \<Rightarrow> store" where
  "with_constraint c s = snd (new_constraint c s)"

definition registered :: "pid \<Rightarrow> string \<Rightarrow> cid \<Rightarrow> store \<Rightarrow> store" where
  "registered p k c s = snd (set_user_constraint p k c s)"

text \<open>Whether the engine accepts a write of \<open>v\<close> to \<open>p\<close>: the parameter exists, it
  is not fixed unless the write comes from a constraint, and the value is within the
  bounds.\<close>

definition accepts :: "bool \<Rightarrow> pid \<Rightarrow> real \<Rightarrow> store \<Rightarrow> bool" where
  "accepts by_constraint p v s =
     (case params s p of
        None \<Rightarrow> False
      | Some par \<Rightarrow> (by_constraint \<or> \<not> fixed par) \<and> within_bounds par v)"

text \<open>The store after the flag assignments.\<close>

definition flag_constraint :: "cid \<Rightarrow> bool \<Rightarrow> store \<Rightarrow> store" where
  "flag_constraint c x s =
     (case constraints s c of
        None \<Rightarrow> s
      | Some con \<Rightarrow> s\<lparr>constraints := (constraints s)(c \<mapsto> con\<lparr>c_enabled := x\<rparr>)\<rparr>)"

definition flag_parameter :: "pid \<Rightarrow> bool \<Rightarrow> store \<Rightarrow> store" where
  "flag_parameter p x s = snd (set_parameter_enabled p x s)"

definition unfixed :: "pid \<Rightarrow> store \<Rightarrow> store" where
  "unfixed p s = snd (set_parameter_fixed p False s)"


section \<open>A concrete scenario\<close>

text \<open>
  The inputs at which the theorems below are instantiated.  Parameters are created
  free (not fixed), as a caller does who intends to vary them.
\<close>

text \<open>
  Modelled from the spec: \<^verbatim>\<open>apm_to_sld\<close> is not among the sources; the specification
  gives it as the scattering length divided by the product of thickness and area
  per molecule.  A zero product raises, as Python's division does.
\<close>

definition apm_to_sld_spec :: "real \<Rightarrow> real \<Rightarrow> real \<Rightarrow> error + real" where
  "apm_to_sld_spec scattering_length thickness_v area_per_molecule_v =
     (if thickness_v * area_per_molecule_v = 0 then Inl (OtherError ''ZeroDivisionError'')
      else Inr (scattering_length / (thickness_v * area_per_molecule_v)))"

text \<open>A stand-in for \<^verbatim>\<open>neutron_scattering_length\<close> that knows two formulas.\<close>

definition ex_nsl :: "string \<Rightarrow> error + complex" where
  "ex_nsl formula =
     (if formula = ''head'' then Inr (Complex 5 1)
      else if formula = ''tail'' then Inr (Complex 8 2)
      else Inl (ValueError ''unknown formula''))"

definition free_details :: "real option \<Rightarrow> real option \<Rightarrow> details" where
  "free_details lo hi = \<lparr>d_value = 0, d_units = angstrom, d_min = lo, d_max = hi, d_fixed = False\<rparr>"

definition ex_layer ::
  "string \<Rightarrow> real \<Rightarrow> real \<Rightarrow> real \<Rightarrow> real \<Rightarrow> real \<Rightarrow> (layer, store) comp" where
  "ex_layer formula thickness_v area_per_molecule_v roughness_v solvation_v solvent_sld =
   bindM (pure_step (Parameter name_thickness thickness_v (free_details (Some 0) None))) (\<lambda>t.
   bindM (pure_step (Parameter name_area_per_molecule area_per_molecule_v (free_details (Some 0) None))) (\<lambda>a.
   bindM (pure_step (Parameter name_roughness roughness_v (free_details (Some 0) None))) (\<lambda>r.
   bindM (pure_step (Parameter name_solvation solvation_v (free_details (Some 0) (Some 1)))) (\<lambda>sv.
   bindM (pure_step (Material_from_pars solvent_sld 0 ''D2O'')) (\<lambda>m.
   LayerApm_init ex_nsl apm_to_sld_spec formula t m sv a r formula)))))"


section \<open>Properties of the refnx interface\<close>

lemma added_layers_append:
  "added_layers it (xs @ ys) = added_layers it xs @ added_layers it ys"
  by (induction it xs rule: added_layers.induct) simp_all

lemma added_items_append: "added_items (xs @ ys) = added_items xs @ added_items ys"
  by (induction xs rule: added_items.induct) simp_all

lemma calls_add_layers:
  "calls (add_layers ls u r) = calls r @ map (\<lambda>i. Calc_add_layer_to_item (Uid (uid i)) (Uid u)) ls"
  by (induction ls arbitrary: r) (simp_all add: add_layer_to_item_def calc_def)

lemma calls_add_items:
  "calls (add_items st r) = calls r @ map (\<lambda>i. Calc_add_item (Uid (uid i))) st"
  by (induction st arbitrary: r) (simp_all add: add_item_to_model_def calc_def)

lemma added_layers_map:
  "added_layers (Uid u) (map (\<lambda>i. Calc_add_layer_to_item (Uid (uid i)) (Uid u)) ls) = map (\<lambda>i. Uid (uid i)) ls"
  by (induction ls) simp_all

lemma added_items_map:
  "added_items (map (\<lambda>i. Calc_add_item (Uid (uid i))) st) = map (\<lambda>i. Uid (uid i)) st"
  by (induction st) simp_all

text \<open>
  Claim C8.  The translation tables of the refnx interface are exactly: material
  sld to real and isld to imag; layer thickness to thick and roughness to rough;
  item repetitions to repeats; model scale to scale, background to bkg and
  resolution to dq.  Each table is read as the dictionary it is in the source: the
  lookup of every listed name gives the listed backend name, and no other name is a
  key.
\<close>

theorem refnx_link_tables:
  "map_of material_link = [''sld'' \<mapsto> ''real'', ''isld'' \<mapsto> ''imag'']
   \<and> map_of layer_link = [''thickness'' \<mapsto> ''thick'', ''roughness'' \<mapsto> ''rough'']
   \<and> map_of item_link = [''repetitions'' \<mapsto> ''repeats'']
   \<and> map_of model_link = [''scale'' \<mapsto> ''scale'', ''background'' \<mapsto> ''bkg'', ''resolution'' \<mapsto> ''dq'']
   \<and> name_conversion (hd (fst (create (Material u) r))) = material_link
   \<and> name_conversion (hd (fst (create (Layer u m) r))) = layer_link
   \<and> name_conversion (hd (fst (create (MultiLayer u ls) r))) = item_link
   \<and> name_conversion (hd (fst (create (RepeatingMultiLayer u ls) r))) = item_link
   \<and> name_conversion (hd (fst (create (Model u st) r))) = model_link"
  by (simp add: material_link_def layer_link_def item_link_def model_link_def
      create_item_branch_def fun_eq_iff)

text \<open>
  Claim C7.  Binding a MultiLayer or a RepeatingMultiLayer creates the item and then
  adds its layers to it in the order of the entity's \<^verbatim>\<open>layers\<close>; binding a Model
  creates the model and then adds the items in the order of its \<^verbatim>\<open>structure\<close>.  The
  calls are appended to whatever the calculator had received before, so the
  layers (items) the calculator has been given for this item (model) are those it
  had, followed by the entity tree's, in the entity tree's order.
\<close>

theorem create_registers_in_tree_order:
  "calls (snd (create (MultiLayer u ls) r)) =
      calls r @ Calc_create_item (Uid u) # map (\<lambda>i. Calc_add_layer_to_item (Uid (uid i)) (Uid u)) ls
   \<and> calls (snd (create (RepeatingMultiLayer u ls) r)) =
      calls r @ Calc_create_item (Uid u) # map (\<lambda>i. Calc_add_layer_to_item (Uid (uid i)) (Uid u)) ls
   \<and> calls (snd (create (Model u st) r)) =
      calls r @ Calc_create_model # map (\<lambda>i. Calc_add_item (Uid (uid i))) st
   \<and> added_layers (Uid u) (calls (snd (create (MultiLayer u ls) r))) =
      added_layers (Uid u) (calls r) @ map (\<lambda>i. Uid (uid i)) ls
   \<and> added_layers (Uid u) (calls (snd (create (RepeatingMultiLayer u ls) r))) =
      added_layers (Uid u) (calls r) @ map (\<lambda>i. Uid (uid i)) ls
   \<and> added_items (calls (snd (create (Model u st) r))) =
      added_items (calls r) @ map (\<lambda>i. Uid (uid i)) st"
proof -
  have item: "calls (snd (create_item_branch u ls r)) =
      calls r @ Calc_create_item (Uid u) # map (\<lambda>i. Calc_add_layer_to_item (Uid (uid i)) (Uid u)) ls"
    by (simp add: create_item_branch_def calls_add_layers calc_def)
  have model: "calls (snd (create (Model u st) r)) =
      calls r @ Calc_create_model # map (\<lambda>i. Calc_add_item (Uid (uid i))) st"
    by (simp add: calls_add_items calc_def)
  have layers: "added_layers (Uid u) (calls (snd (create_item_branch u ls r))) =
      added_layers (Uid u) (calls r) @ map (\<lambda>i. Uid (uid i)) ls"
    unfolding item by (simp add: added_layers_append added_layers_map)
  have items: "added_items (calls (snd (create (Model u st) r))) =
      added_items (calls r) @ map (\<lambda>i. Uid (uid i)) st"
    unfolding model by (simp add: added_items_append added_items_map)
  show ?thesis
    using item model layers items by simp
qed

text \<open>
  Claim C2, as stated, at a concrete input: a Model whose uid is 7 is bound with no
  items.  The container \<^verbatim>\<open>create\<close> returns carries the string \<^verbatim>\<open>'model'\<close>, not the
  uid.
\<close>

theorem create_model_key_counterexample:
  "\<not> (map link_name (fst (create (Model 7 []) fresh_refnx)) = [Uid 7])"
  by simp

text \<open>
  Claim C2, amended.  For a Material, a Layer, a MultiLayer and a
  RepeatingMultiLayer the single container \<^verbatim>\<open>create\<close> returns carries the entity's
  uid as its key, and every key \<^verbatim>\<open>create\<close> passes to the calculator for the entity
  itself is that uid (its children are named by their own uids).  For a Model the
  container's key is the literal \<^verbatim>\<open>'model'\<close> and \<^verbatim>\<open>create_model\<close> is called with no
  key at all, whatever the model's uid.
\<close>

theorem create_container_keys:
  "map link_name (fst (create (Material u) r)) = [Uid u]
   \<and> map link_name (fst (create (Layer u m) r)) = [Uid u]
   \<and> map link_name (fst (create (MultiLayer u ls) r)) = [Uid u]
   \<and> map link_name (fst (create (RepeatingMultiLayer u ls) r)) = [Uid u]
   \<and> map link_name (fst (create (Model u st) r)) = [Name ''model'']
   \<and> calls (snd (create (Material u) r)) = calls r @ [Calc_create_material (Uid u)]
   \<and> calls (snd (create (Layer u m) r)) =
        calls r @ [Calc_create_layer (Uid u), Calc_assign_material_to_layer (Uid (uid m)) (Uid u)]
   \<and> hd (drop (length (calls r)) (calls (snd (create (MultiLayer u ls) r)))) = Calc_create_item (Uid u)
   \<and> hd (drop (length (calls r)) (calls (snd (create (RepeatingMultiLayer u ls) r)))) = Calc_create_item (Uid u)
   \<and> hd (drop (length (calls r)) (calls (snd (create (Model u st) r)))) = Calc_create_model"
  by (simp add: create_item_branch_def calls_add_layers calls_add_items calc_def
      assign_material_to_layer_def)

section \<open>Properties of the factory and of the layer properties\<close>



text \<open>
  Claim C9.  For a layer of either class, reading \<^verbatim>\<open>solvation\<close> gives the material's
  \<^verbatim>\<open>fraction\<close> parameter, and writing \<^verbatim>\<open>solvation\<close> assigns the material's attribute
  \<^verbatim>\<open>solvation\<close>.  The two are different attributes: the write leaves \<^verbatim>\<open>fraction\<close> as it
  was, so the getter answers after the write what it answered before, and the value
  written is found under \<^verbatim>\<open>solvation\<close> only.
\<close>

theorem solvation_getter_setter_paths:
  "solvation_getter self = fraction (material self)
   \<and> solvation_attr (material (solvation_setter v self)) = Some v
   \<and> fraction (material (solvation_setter v self)) = fraction (material self)
   \<and> solvation_getter (solvation_setter v self) = solvation_getter self"
  by (simp add: solvation_getter_def solvation_setter_def)


section \<open>Lemmas about the constraint engine\<close>

lemma set_value_leaf:
  assumes "params s p = Some par" "user_constraints par = []"
    and "set_value (Suc n) True p v s = (Inr u, s')"
  shows "s' = store_value p par v s \<and> within_bounds par v"
  using assms by (simp split: if_splits)

lemma propagate_functional:
  assumes "constraints s c = Some (functional f d ps)"
    and "propagate wr (c # cs) s = (Inr u, s')"
  shows "\<exists>vs v s1. raw_values ps s = Inr vs \<and> call3 f vs = Inr v
           \<and> wr d v s = (Inr (), s1) \<and> propagate wr cs s1 = (Inr u, s')"
  using assms
  by (auto simp: functional_def evaluate_def split: sum.splits prod.splits)

lemma set_value_accepted:
  assumes "set_value (Suc n) bc p v s = (Inr u, s')"
  shows "\<exists>par. params s p = Some par \<and> within_bounds par v
           \<and> propagate (set_value n True) (map snd (user_constraints par)) (store_value p par v s) = (Inr u, s')"
  using assms by (auto split: option.splits if_splits)

lemma constraints_of_Some:
  "constraints_of p s = Some cs \<Longrightarrow> \<exists>par. params s p = Some par \<and> user_constraints par = cs"
  by (auto simp: constraints_of_def)

lemma poke_simps:
  "constraints (poke p v s) = constraints s"
  "next_pid (poke p v s) = next_pid s"
  "next_cid (poke p v s) = next_cid s"
  "constraints_of q (poke p v s) = constraints_of q s"
  "q \<noteq> p \<Longrightarrow> params (poke p v s) q = params s q"
  "q \<noteq> p \<Longrightarrow> get_raw_value q (poke p v s) = get_raw_value q s"
  by (auto simp: poke_def store_value_def constraints_of_def get_raw_value_def split: option.splits)

lemma poke_same:
  "params s p = Some par \<Longrightarrow> get_raw_value p (poke p v s) = Inr v"
  "params s p = Some par \<Longrightarrow> store_value p par v s = poke p v s"
  by (auto simp: poke_def store_value_def get_raw_value_def)

lemma get_raw_value_poke:
  "constraints_of p s = Some cs \<Longrightarrow>
     get_raw_value q (poke p v s) = (if q = p then Inr v else get_raw_value q s)"
  by (auto simp: poke_def store_value_def constraints_of_def get_raw_value_def split: option.splits)

lemma leaf_write:
  assumes "constraints_of p s = Some []"
    and "set_value (Suc n) True p v s = (Inr u, s')"
  shows "s' = poke p v s"
proof -
  from assms(1) obtain par where par: "params s p = Some par" "user_constraints par = []"
    by (auto dest: constraints_of_Some)
  from set_value_leaf [OF par assms(2)] show ?thesis
    by (simp add: poke_same(2) [OF par(1)])
qed

lemma raw_values3:
  "raw_values [p1, p2, p3] s = Inr vs \<Longrightarrow>
     \<exists>v1 v2 v3. vs = [v1, v2, v3] \<and> get_raw_value p1 s = Inr v1
        \<and> get_raw_value p2 s = Inr v2 \<and> get_raw_value p3 s = Inr v3"
  by (auto split: sum.splits)


text \<open>A successful write to a parameter with two functional constraints, the
  second of which does not read the dependent of the first.\<close>

lemma write_two:
  assumes cp: "constraints_of p s = Some [(k, c), (ik, ic)]"
    and cc: "constraints s c = Some (functional f d [x1, x2, x3])"
    and cic: "constraints s ic = Some (functional f e [y1, y2, y3])"
    and cd: "constraints_of d s = Some []"
    and ce: "constraints_of e s = Some []"
    and dist: "d \<noteq> y1" "d \<noteq> y2" "d \<noteq> y3"
    and ok: "set_value (Suc (Suc n)) bc p v s = (Inr u, s')"
  shows "\<exists>v1 v2 v3 w1 w2 w3 v_d v_e.
           get_raw_value x1 (poke p v s) = Inr v1
         \<and> get_raw_value x2 (poke p v s) = Inr v2
         \<and> get_raw_value x3 (poke p v s) = Inr v3
         \<and> get_raw_value y1 (poke p v s) = Inr w1
         \<and> get_raw_value y2 (poke p v s) = Inr w2
         \<and> get_raw_value y3 (poke p v s) = Inr w3
         \<and> f v1 v2 v3 = Inr v_d \<and> f w1 w2 w3 = Inr v_e
         \<and> s' = poke e v_e (poke d v_d (poke p v s))"
proof -
  from cp obtain par where par: "params s p = Some par" "user_constraints par = [(k, c), (ik, ic)]"
    by (auto dest: constraints_of_Some)
  let ?s1 = "poke p v s"
  from set_value_accepted [OF ok] par
  have p1: "propagate (set_value (Suc n) True) [c, ic] ?s1 = (Inr u, s')"
    by (simp add: poke_same(2))
  from cc have cc1: "constraints ?s1 c = Some (functional f d [x1, x2, x3])"
    by (simp add: poke_simps)
  from propagate_functional [OF cc1 p1]
  obtain vs v_d s2 where a1: "raw_values [x1, x2, x3] ?s1 = Inr vs" "call3 f vs = Inr v_d"
      "set_value (Suc n) True d v_d ?s1 = (Inr (), s2)"
      "propagate (set_value (Suc n) True) [ic] s2 = (Inr u, s')"
    by blast
  from raw_values3 [OF a1(1)] obtain v1 v2 v3 where
    vs: "vs = [v1, v2, v3]" "get_raw_value x1 ?s1 = Inr v1" "get_raw_value x2 ?s1 = Inr v2"
      "get_raw_value x3 ?s1 = Inr v3"
    by blast
  from cd have "constraints_of d ?s1 = Some []" by (simp add: poke_simps)
  from leaf_write [OF this a1(3)] have s2: "s2 = poke d v_d ?s1" .
  from cic have cic2: "constraints s2 ic = Some (functional f e [y1, y2, y3])"
    by (simp add: s2 poke_simps)
  from propagate_functional [OF cic2 a1(4)]
  obtain ws v_e s3 where b1: "raw_values [y1, y2, y3] s2 = Inr ws" "call3 f ws = Inr v_e"
      "set_value (Suc n) True e v_e s2 = (Inr (), s3)"
      "propagate (set_value (Suc n) True) [] s3 = (Inr u, s')"
    by blast
  from raw_values3 [OF b1(1)] obtain w1 w2 w3 where
    ws: "ws = [w1, w2, w3]" "get_raw_value y1 ?s1 = Inr w1" "get_raw_value y2 ?s1 = Inr w2"
      "get_raw_value y3 ?s1 = Inr w3"
    using dist by (auto simp: s2 poke_simps)
  from ce have "constraints_of e s2 = Some []" by (simp add: s2 poke_simps)
  from leaf_write [OF this b1(3)] have s3: "s3 = poke e v_e s2" .
  from b1(4) have "s' = s3" by simp
  with s3 s2 vs ws a1(2) b1(2) show ?thesis
    by (simp add: call3_def)
qed


section \<open>The primitive steps as store transformers\<close>


lemma Parameter_step:
  "pure_step (Parameter nm v d) s = (Inr (next_pid s), allocated nm v d s)"
  by (simp add: pure_step_def Parameter_def allocated_def)

lemma FunctionalConstraint_step:
  "pure_step (FunctionalConstraint dep (call3 f) ps) s = (Inr (next_cid s), with_constraint (functional f dep ps) s)"
  by (simp add: pure_step_def FunctionalConstraint_def new_constraint_def with_constraint_def functional_def)

lemma ObjConstraint_step:
  "pure_step (ObjConstraint dep operator p) s = (Inr (next_cid s), with_constraint (mirror dep p True) s)"
  by (simp add: pure_step_def ObjConstraint_def new_constraint_def with_constraint_def mirror_def)

lemma Material_from_pars_step:
  "pure_step (Material_from_pars v1 v2 nm) s =
     (Inr \<lparr>m_name = nm, sld = next_pid s, isld = Suc (next_pid s)\<rparr>,
      allocated name_isld v2 details_material (allocated name_sld v1 details_material s))"
  by (simp add: pure_step_def Material_from_pars_def Parameter_def allocated_def)

lemma set_user_constraint_step:
  "set_user_constraint p k c s =
     (if constraints_of p s = None then (Inl NoSuchObject, s) else (Inr (), registered p k c s))"
  by (simp add: set_user_constraint_def registered_def constraints_of_def split: option.splits)

lemma allocated_simps:
  "next_pid (allocated nm v d s) = Suc (next_pid s)"
  "next_cid (allocated nm v d s) = next_cid s"
  "constraints (allocated nm v d s) = constraints s"
  "get_raw_value q (allocated nm v d s) = (if q = next_pid s then Inr v else get_raw_value q s)"
  "constraints_of q (allocated nm v d s) = (if q = next_pid s then Some [] else constraints_of q s)"
  "q \<noteq> next_pid s \<Longrightarrow> params (allocated nm v d s) q = params s q"
  by (simp_all add: allocated_def Parameter_def get_raw_value_def constraints_of_def)

lemma with_constraint_simps:
  "next_pid (with_constraint c s) = next_pid s"
  "next_cid (with_constraint c s) = Suc (next_cid s)"
  "constraints (with_constraint c s) = (constraints s)(next_cid s \<mapsto> c)"
  "params (with_constraint c s) = params s"
  "get_raw_value q (with_constraint c s) = get_raw_value q s"
  "constraints_of q (with_constraint c s) = constraints_of q s"
  by (simp_all add: with_constraint_def new_constraint_def get_raw_value_def constraints_of_def)

lemma registered_simps:
  "next_pid (registered p k c s) = next_pid s"
  "next_cid (registered p k c s) = next_cid s"
  "constraints (registered p k c s) = constraints s"
  "get_raw_value q (registered p k c s) = get_raw_value q s"
  "constraints_of q (registered p k c s) =
     (if q = p then map_option (dict_set k c) (constraints_of p s) else constraints_of q s)"
  "q \<noteq> p \<Longrightarrow> params (registered p k c s) q = params s q"
  by (auto simp: registered_def set_user_constraint_def get_raw_value_def constraints_of_def
      split: option.splits)

lemmas step_simps = Parameter_step FunctionalConstraint_step ObjConstraint_step
  Material_from_pars_step set_user_constraint_step allocated_simps(1-5) with_constraint_simps
  registered_simps(1-5)


section \<open>Writes to the parameters of a layer\<close>



lemma write_area_per_molecule:
  assumes w: "layer_wired f key ikey c ic l s"
    and ok: "set_value (Suc (Suc n)) bc (area_per_molecule l) v s = (Inr u, s')"
  shows "\<exists>v_real v_imag v_thickness v_sld v_isld.
           get_raw_value (scattering_length_real l) s = Inr v_real
         \<and> get_raw_value (scattering_length_imag l) s = Inr v_imag
         \<and> get_raw_value (thickness l) s = Inr v_thickness
         \<and> f v_real v_thickness v = Inr v_sld
         \<and> f v_imag v_thickness v = Inr v_isld
         \<and> s' = poke (material_isld l) v_isld (poke (material_sld l) v_sld (poke (area_per_molecule l) v s))"
proof -
  from w have ca: "constraints_of (area_per_molecule l) s = Some [(key, c), (ikey, ic)]"
    by (simp add: layer_wired_def)
  from w write_two [OF ca _ _ _ _ _ _ _ ok, of f "material_sld l" "scattering_length_real l" "thickness l"
      "area_per_molecule l" "material_isld l" "scattering_length_imag l" "thickness l" "area_per_molecule l"]
  show ?thesis
    by (auto simp: layer_wired_def get_raw_value_poke [OF ca])
qed




section \<open>What a layer constructor establishes\<close>




lemma layer_init_wired:
  assumes ok: "layer_init nsl f key ikey sname cov formula t solv solvation a rough nm s = (Inr l, s')"
    and old: "t < next_pid s" "a < next_pid s"
    and fresh: "constraints_of t s = Some []" "constraints_of a s = Some []" "t \<noteq> a" "key \<noteq> ikey"
  shows "layer_wired f key ikey (next_cid s) (Suc (next_cid s)) l s'"
  using ok old fresh
  by (auto simp: layer_init_def bindM_def read_step_def returnM_def liftE_def step_simps
        layer_wired_def material_sld_def material_isld_def MaterialSolvated_def
      split: sum.splits if_splits)

lemma layer_init_fields:
  assumes ok: "layer_init nsl f key ikey sname cov formula t solv solvation a rough nm s = (Inr l, s')"
  shows "thickness l = t \<and> area_per_molecule l = a \<and> roughness l = rough
       \<and> fraction (material l) = solvation \<and> solvent (material l) = solv
       \<and> scattering_length_real l = next_pid s \<and> scattering_length_imag l = Suc (next_pid s)
       \<and> material_sld l = Suc (Suc (next_pid s)) \<and> material_isld l = Suc (Suc (Suc (next_pid s)))
       \<and> coverage l = cov \<and> molecular_formula l = formula \<and> l_name l = nm
       \<and> next_pid s' = Suc (Suc (Suc (Suc (next_pid s)))) \<and> next_cid s' = Suc (Suc (next_cid s))"
  using ok
  by (auto simp: layer_init_def bindM_def read_step_def returnM_def liftE_def step_simps
        material_sld_def material_isld_def MaterialSolvated_def
      split: sum.splits if_splits)

lemma layer_init_frame:
  assumes ok: "layer_init nsl f key ikey sname cov formula t solv solvation a rough nm s = (Inr l, s')"
    and q: "q < next_pid s"
  shows "get_raw_value q s' = get_raw_value q s"
    and "q \<noteq> t \<Longrightarrow> q \<noteq> a \<Longrightarrow> constraints_of q s' = constraints_of q s"
    and "c < next_cid s \<Longrightarrow> constraints s' c = constraints s c"
  using ok q
  by (auto simp: layer_init_def bindM_def read_step_def returnM_def liftE_def step_simps
        material_sld_def material_isld_def MaterialSolvated_def
      split: sum.splits if_splits)


section \<open>Writes that succeed\<close>

lemma accepts_simps:
  "accepts bc q v (allocated nm v0 d s) =
     (if q = next_pid s
      then (bc \<or> \<not> d_fixed d)
           \<and> (case d_min d of None \<Rightarrow> True | Some lo \<Rightarrow> lo \<le> v)
           \<and> (case d_max d of None \<Rightarrow> True | Some hi \<Rightarrow> v \<le> hi)
      else accepts bc q v s)"
  "accepts bc q v (with_constraint c s) = accepts bc q v s"
  "accepts bc q v (registered p k c' s) = accepts bc q v s"
  "accepts bc q v (poke p w s) = accepts bc q v s"
  by (auto simp: accepts_def allocated_def Parameter_def with_constraint_def new_constraint_def
      registered_def set_user_constraint_def poke_def store_value_def within_bounds_def
      split: option.splits)

lemma set_value_unfold:
  assumes "constraints_of p s = Some cs" "accepts bc p v s"
  shows "set_value (Suc n) bc p v s = propagate (set_value n True) (map snd cs) (poke p v s)"
  using assms
  by (auto simp: constraints_of_def accepts_def poke_def split: option.splits)

lemma leaf_write_ok:
  assumes "constraints_of p s = Some []" "accepts True p v s"
  shows "set_value (Suc n) True p v s = (Inr (), poke p v s)"
  using set_value_unfold [OF assms] by simp

lemma propagate_functional_ok:
  assumes "constraints s c = Some (functional f d [x1, x2, x3])"
    and "get_raw_value x1 s = Inr v1" "get_raw_value x2 s = Inr v2" "get_raw_value x3 s = Inr v3"
    and "f v1 v2 v3 = Inr v_d"
    and "wr d v_d s = (Inr (), s1)"
  shows "propagate wr (c # cs) s = propagate wr cs s1"
  using assms by (simp add: functional_def evaluate_def call3_def)

lemma write_two_ok:
  assumes cp: "constraints_of p s = Some [(k, c), (ik, ic)]"
    and cc: "constraints s c = Some (functional f d [x1, x2, x3])"
    and cic: "constraints s ic = Some (functional f e [y1, y2, y3])"
    and cd: "constraints_of d s = Some []"
    and ce: "constraints_of e s = Some []"
    and dist: "d \<noteq> y1" "d \<noteq> y2" "d \<noteq> y3"
    and acc: "accepts bc p v s"
    and xs: "get_raw_value x1 (poke p v s) = Inr v1" "get_raw_value x2 (poke p v s) = Inr v2"
            "get_raw_value x3 (poke p v s) = Inr v3"
    and ys: "get_raw_value y1 (poke p v s) = Inr w1" "get_raw_value y2 (poke p v s) = Inr w2"
            "get_raw_value y3 (poke p v s) = Inr w3"
    and fs: "f v1 v2 v3 = Inr v_d" "f w1 w2 w3 = Inr v_e"
    and accd: "accepts True d v_d s" "accepts True e v_e s"
  shows "set_value (Suc (Suc n)) bc p v s = (Inr (), poke e v_e (poke d v_d (poke p v s)))"
proof -
  let ?s1 = "poke p v s" and ?s2 = "poke d v_d (poke p v s)"
  have w1: "set_value (Suc n) True d v_d ?s1 = (Inr (), ?s2)"
    using cd accd(1) by (intro leaf_write_ok) (simp_all add: poke_simps accepts_simps)
  have w2: "set_value (Suc n) True e v_e ?s2 = (Inr (), poke e v_e ?s2)"
    using ce accd(2) by (intro leaf_write_ok) (simp_all add: poke_simps accepts_simps)
  have cc1: "constraints ?s1 c = Some (functional f d [x1, x2, x3])"
    using cc by (simp add: poke_simps)
  have cic2: "constraints ?s2 ic = Some (functional f e [y1, y2, y3])"
    using cic by (simp add: poke_simps)
  have ys2: "get_raw_value y1 ?s2 = Inr w1" "get_raw_value y2 ?s2 = Inr w2" "get_raw_value y3 ?s2 = Inr w3"
    using ys dist by (simp_all add: poke_simps)
  have "set_value (Suc (Suc n)) bc p v s = propagate (set_value (Suc n) True) [c, ic] ?s1"
    using set_value_unfold [OF cp acc] by simp
  also have "\<dots> = propagate (set_value (Suc n) True) [ic] ?s2"
    by (rule propagate_functional_ok [where wr = "set_value (Suc n) True", OF cc1 xs fs(1) w1])
  also have "\<dots> = propagate (set_value (Suc n) True) [] (poke e v_e ?s2)"
    by (rule propagate_functional_ok [where wr = "set_value (Suc n) True", OF cic2 ys2 fs(2) w2])
  finally show ?thesis by simp
qed

text \<open>Rewrite rules that run a write on a store given by its construction.\<close>

lemma functional_sel:
  "c_enabled (functional f d ps) = True" "dependent_obj (functional f d ps) = d"
  "independent_objs (functional f d ps) = ps" "c_rule (functional f d ps) = Functional (call3 f)"
  by (simp_all add: functional_def)

lemma mirror_sel:
  "c_enabled (mirror d p on) = on" "dependent_obj (mirror d p on) = d"
  "independent_objs (mirror d p on) = [p]" "c_rule (mirror d p on) = ObjectMirror"
  "(mirror d p on)\<lparr>c_enabled := x\<rparr> = mirror d p x"
  by (simp_all add: mirror_def)

lemma evaluate_functional:
  "evaluate (functional f d [x1, x2, x3]) s =
     (case get_raw_value x1 s of Inl e \<Rightarrow> Inl e | Inr v1 \<Rightarrow>
      case get_raw_value x2 s of Inl e \<Rightarrow> Inl e | Inr v2 \<Rightarrow>
      case get_raw_value x3 s of Inl e \<Rightarrow> Inl e | Inr v3 \<Rightarrow> f v1 v2 v3)"
  by (simp add: evaluate_def functional_def call3_def split: sum.splits)

lemma evaluate_mirror:
  "evaluate (mirror d p on) s = get_raw_value p s"
  by (simp add: evaluate_def mirror_def split: sum.splits)

lemma set_value_run:
  "accepts bc p v s \<Longrightarrow>
     set_value (Suc n) bc p v s = propagate (set_value n True) (map snd (the (constraints_of p s))) (poke p v s)"
  by (auto simp: constraints_of_def accepts_def poke_def split: option.splits)

lemma get_raw_value_poke_run:
  "get_raw_value q (poke p v s) = (if q = p \<and> constraints_of p s \<noteq> None then Inr v else get_raw_value q s)"
  by (auto simp: poke_def store_value_def constraints_of_def get_raw_value_def split: option.splits)

lemma empty_store_simps:
  "next_pid empty_store = 0" "next_cid empty_store = 0" "constraints empty_store = (\<lambda>c. None)"
  "get_raw_value q empty_store = Inl NoSuchObject" "constraints_of q empty_store = None"
  "accepts bc q v empty_store = False"
  by (simp_all add: empty_store_def get_raw_value_def constraints_of_def accepts_def)

lemmas run_simps = step_simps accepts_simps poke_simps(1-4) get_raw_value_poke_run empty_store_simps
  functional_sel mirror_sel evaluate_functional evaluate_mirror set_value_run
  bindM_def returnM_def read_step_def liftE_def


section \<open>The relation a layer keeps under writes\<close>

lemma write_needs_fuel:
  assumes cp: "constraints_of p s = Some ((k, c) # cs)"
    and cc: "constraints s c = Some (functional f d ps)"
    and ok: "set_value m bc p v s = (Inr u, s')"
  shows "\<exists>n. m = Suc (Suc n)"
proof (cases m)
  case 0
  with ok show ?thesis by simp
next
  case m: (Suc m')
  show ?thesis
  proof (cases m')
    case 0
    from cp obtain par where par: "params s p = Some par" "user_constraints par = (k, c) # cs"
      by (auto dest: constraints_of_Some)
    from ok m 0 have ok1: "set_value (Suc 0) bc p v s = (Inr u, s')" by simp
    from set_value_accepted [OF ok1] par
    have p1: "propagate (set_value 0 True) (c # map snd cs) (poke p v s) = (Inr u, s')"
      by (simp add: poke_same(2))
    from cc have cc1: "constraints (poke p v s) c = Some (functional f d ps)"
      by (simp add: poke_simps)
    from propagate_functional [OF cc1 p1] show ?thesis by simp
  next
    case (Suc n)
    with m show ?thesis by simp
  qed
qed




section \<open>Running the concrete scenario\<close>

lemma ex_layer_unfold:
  "ex_layer formula tv av rv sv ssld s =
     LayerApm_init ex_nsl apm_to_sld_spec formula (next_pid s)
       \<lparr>m_name = ''D2O'', sld = Suc (Suc (Suc (Suc (next_pid s)))),
          isld = Suc (Suc (Suc (Suc (Suc (next_pid s)))))\<rparr>
       (Suc (Suc (Suc (next_pid s)))) (Suc (next_pid s)) (Suc (Suc (next_pid s))) formula
       (allocated name_isld 0 details_material
         (allocated name_sld ssld details_material
           (allocated name_solvation sv (free_details (Some 0) (Some 1))
             (allocated name_roughness rv (free_details (Some 0) None)
               (allocated name_area_per_molecule av (free_details (Some 0) None)
                 (allocated name_thickness tv (free_details (Some 0) None) s))))))"
  by (simp add: ex_layer_def bindM_def step_simps)

lemmas ex_simps = ex_layer_def LayerApm_init_def layer_init_def run_simps ex_nsl_def apm_to_sld_spec_def
  free_details_def details_material_def details_sl_def details_isl_def
  material_sld_def material_isld_def MaterialSolvated_def numeral_eq_Suc


section \<open>The layer and its material\<close>





text \<open>
  Claim C5, as amended.  An accepted assignment to the area per molecule of a
  \<^verbatim>\<open>LayerApm\<close> stores the value and recomputes both the sld and the isld of the
  material, each from its scattering length, the thickness and the new area per
  molecule; every other parameter, and every constraint, is left as it was.
\<close>

theorem write_area_per_molecule_frame:
  assumes init: "LayerApm_init nsl f formula t solv solvation a rough nm s0 = (Inr l, s)"
    and old: "t < next_pid s0" "a < next_pid s0" "t \<noteq> a"
    and fresh: "constraints_of t s0 = Some []" "constraints_of a s0 = Some []"
    and ok: "set_value m False (area_per_molecule l) v s = (Inr (), s')"
  shows "get_raw_value (area_per_molecule l) s' = Inr v
       \<and> sld_consistent f l s' \<and> isld_consistent f l s'
       \<and> (\<forall>q. q \<noteq> area_per_molecule l \<and> q \<noteq> material_sld l \<and> q \<noteq> material_isld l
              \<longrightarrow> params s' q = params s q)
       \<and> constraints s' = constraints s"
proof -
  from init have li: "layer_init nsl f ''apm'' ''iapm'' (formula @ ''/'' @ m_name solv) None
      formula t solv solvation a rough nm s0 = (Inr l, s)"
    by (simp add: LayerApm_init_def)
  from layer_init_wired [OF li old(1,2) fresh old(3)]
  have w: "layer_wired f ''apm'' ''iapm'' (next_cid s0) (Suc (next_cid s0)) l s" by simp
  then have cp: "constraints_of (area_per_molecule l) s
      = Some ((''apm'', next_cid s0) # [(''iapm'', Suc (next_cid s0))])"
    and cc: "constraints s (next_cid s0) = Some (functional f (material_sld l)
                  [scattering_length_real l, thickness l, area_per_molecule l])"
    by (simp_all add: layer_wired_def)
  from write_needs_fuel [OF cp cc ok] obtain n where m: "m = Suc (Suc n)" by blast
  from write_area_per_molecule [OF w ok [unfolded m]] w show ?thesis
    by (auto simp: sld_consistent_def isld_consistent_def layer_wired_def get_raw_value_poke_run poke_simps)
qed


text \<open>The theorem at the layer of the scenario, with 60 written to the area per
  molecule.\<close>

theorem write_area_per_molecule_frame_witness:
  "\<exists>l s s'. ex_layer ''head'' 10 50 3 (1/5) 6.36 empty_store = (Inr l, s)
     \<and> set_value 1000 False (area_per_molecule l) 60 s = (Inr (), s')
     \<and> get_raw_value (area_per_molecule l) s' = Inr 60
     \<and> get_raw_value (material_sld l) s' = Inr (1/120)
     \<and> get_raw_value (material_isld l) s' = Inr (1/600)
     \<and> sld_consistent apm_to_sld_spec l s' \<and> isld_consistent apm_to_sld_spec l s'
     \<and> params s' (thickness l) = params s (thickness l)
     \<and> params s' (scattering_length_real l) = params s (scattering_length_real l)
     \<and> constraints s' = constraints s"
proof -
  have "\<exists>l s s'. ex_layer ''head'' 10 50 3 (1/5) 6.36 empty_store = (Inr l, s)
     \<and> set_value 1000 False (area_per_molecule l) 60 s = (Inr (), s')
     \<and> thickness l = 0 \<and> area_per_molecule l = 1 \<and> scattering_length_real l = 6
     \<and> material_sld l = 8 \<and> material_isld l = 9
     \<and> get_raw_value (material_sld l) s' = Inr (1/120)
     \<and> get_raw_value (material_isld l) s' = Inr (1/600)"
    by (simp add: ex_simps del: set_value.simps)
  then obtain l s s' where ex: "ex_layer ''head'' 10 50 3 (1/5) 6.36 empty_store = (Inr l, s)"
    and ok: "set_value 1000 False (area_per_molecule l) 60 s = (Inr (), s')"
    and fields: "thickness l = 0" "area_per_molecule l = 1" "scattering_length_real l = 6"
      "material_sld l = 8" "material_isld l = 9"
    and vals: "get_raw_value (material_sld l) s' = Inr (1/120)"
      "get_raw_value (material_isld l) s' = Inr (1/600)"
    by blast
  note init = ex [unfolded ex_layer_unfold]
  have "get_raw_value (area_per_molecule l) s' = Inr 60
       \<and> sld_consistent apm_to_sld_spec l s' \<and> isld_consistent apm_to_sld_spec l s'
       \<and> (\<forall>q. q \<noteq> area_per_molecule l \<and> q \<noteq> material_sld l \<and> q \<noteq> material_isld l
              \<longrightarrow> params s' q = params s q)
       \<and> constraints s' = constraints s"
    by (rule write_area_per_molecule_frame [OF init _ _ _ _ _ ok])
       (simp_all add: step_simps empty_store_simps)
  with ex ok fields vals show ?thesis by (intro exI [of _ l] exI [of _ s] exI [of _ s']) simp
qed


text \<open>The claim as the specification has it fails on the same input: the isld of the
  material, a parameter other than the sld, goes from 1/500 to 1/600.\<close>

theorem write_area_per_molecule_changes_isld:
  "\<exists>l s s'. ex_layer ''head'' 10 50 3 (1/5) 6.36 empty_store = (Inr l, s)
     \<and> set_value 1000 False (area_per_molecule l) 60 s = (Inr (), s')
     \<and> material_isld l \<noteq> material_sld l \<and> material_isld l \<noteq> area_per_molecule l
     \<and> get_raw_value (material_isld l) s = Inr (1/500)
     \<and> get_raw_value (material_isld l) s' = Inr (1/600)"
  by (simp add: ex_simps del: set_value.simps)


section \<open>The surfactant layer\<close>

text \<open>
  Claim C3.  When the \<^verbatim>\<open>conformal_roughness\<close> property reads false,
  \<^verbatim>\<open>constrain_solvent_roughness\<close> raises the \<^verbatim>\<open>ValueError\<close> of its guard (the
  precondition error of the specification's taxonomy) and leaves the surfactant layer
  and the store exactly as they were: no constraint is created or registered, and
  the solvent roughness it was given keeps its value.
\<close>

theorem constrain_solvent_roughness_requires_conformal:
  assumes "conformal_roughness_getter self s = Inr False"
  shows "constrain_solvent_roughness n solvent_roughness (self, s) =
           (Inl (ValueError ''Roughness must be conformal to use this function.''), (self, s))"
  using assms by (simp add: constrain_solvent_roughness_def)

text \<open>The theorem at a surfactant layer made of the two layers of the scenario, before
  \<^verbatim>\<open>conformal_roughness\<close> was ever assigned.\<close>

theorem constrain_solvent_roughness_requires_conformal_witness:
  "\<exists>l1 s1 l2 s2. ex_layer ''head'' 10 50 3 (1/5) 6.36 empty_store = (Inr l1, s1)
     \<and> ex_layer ''tail'' 20 40 3 0 6.36 s1 = (Inr l2, s2)
     \<and> conformal_roughness_getter (SurfactantLayer_init l1 l2 ''monolayer'') s2 = Inr False
     \<and> constrain_solvent_roughness 1000 (roughness l2) (SurfactantLayer_init l1 l2 ''monolayer'', s2)
         = (Inl (ValueError ''Roughness must be conformal to use this function.''),
            (SurfactantLayer_init l1 l2 ''monolayer'', s2))"
proof -
  have "\<exists>l1 s1 l2 s2. ex_layer ''head'' 10 50 3 (1/5) 6.36 empty_store = (Inr l1, s1)
     \<and> ex_layer ''tail'' 20 40 3 0 6.36 s1 = (Inr l2, s2)"
    by (simp add: ex_simps del: set_value.simps)
  then obtain l1 s1 l2 s2 where ex: "ex_layer ''head'' 10 50 3 (1/5) 6.36 empty_store = (Inr l1, s1)"
      "ex_layer ''tail'' 20 40 3 0 6.36 s1 = (Inr l2, s2)"
    by blast
  have g: "conformal_roughness_getter (SurfactantLayer_init l1 l2 ''monolayer'') s2 = Inr False"
    by (simp add: conformal_roughness_getter_def SurfactantLayer_init_def)
  from constrain_solvent_roughness_requires_conformal [OF g] ex g show ?thesis
    by blast
qed


end
